theory Spec2Isabelle
  imports Main "HOL-Library.Word"
begin

unbundle bit_operations_syntax

section \<open>Data model of \<open>ast37.c\<close>\<close>

text \<open>
  The file is the front door of the Python 3.7 compiler as an extension module:
  \<open>source_as_string\<close>, \<open>PARSER_FLAGS\<close>, \<open>err_input\<close>, \<open>err_free\<close>,
  \<open>PyParser_ASTFromStringObject\<close>, \<open>Py_CompileStringObject\<close> and
  \<open>ast37_compile_impl\<close>. The tokenizer, the parser, the AST builder, the validator, the
  code generator, the arena and the Unicode codecs are functions of the CPython runtime that
  the file calls; they are parameters of the model (the record \<open>env\<close>), and every call of one
  that a property speaks about is written to an event trace.
\<close>

type_synonym byte = "8 word"
type_synonym bytes = "byte list"
type_synonym unicode = "nat list"
type_synonym cint = "32 word"

text \<open>Handles of runtime objects that the file only passes on.\<close>

type_synonym arena = nat
type_synonym node = nat
type_synonym mod_ty = nat

subsection \<open>Constants of the included headers\<close>

text \<open>
  \<open>compile.h\<close>, \<open>code.h\<close>, \<open>parsetok.h\<close>, \<open>errcode.h\<close> and \<open>token.h\<close> are included by
  the file and belong to CPython 3.7; the values are the ones of these headers.
\<close>

definition PyCF_SOURCE_IS_UTF8 :: cint where "PyCF_SOURCE_IS_UTF8 = 0x0100"
definition PyCF_DONT_IMPLY_DEDENT :: cint where "PyCF_DONT_IMPLY_DEDENT = 0x0200"
definition PyCF_ONLY_AST :: cint where "PyCF_ONLY_AST = 0x0400"
definition PyCF_IGNORE_COOKIE :: cint where "PyCF_IGNORE_COOKIE = 0x0800"
definition CO_NESTED :: cint where "CO_NESTED = 0x0010"
definition CO_FUTURE_DIVISION :: cint where "CO_FUTURE_DIVISION = 0x2000"
definition CO_FUTURE_ABSOLUTE_IMPORT :: cint where "CO_FUTURE_ABSOLUTE_IMPORT = 0x4000"
definition CO_FUTURE_WITH_STATEMENT :: cint where "CO_FUTURE_WITH_STATEMENT = 0x8000"
definition CO_FUTURE_PRINT_FUNCTION :: cint where "CO_FUTURE_PRINT_FUNCTION = 0x10000"
definition CO_FUTURE_UNICODE_LITERALS :: cint where "CO_FUTURE_UNICODE_LITERALS = 0x20000"
definition CO_FUTURE_BARRY_AS_BDFL :: cint where "CO_FUTURE_BARRY_AS_BDFL = 0x40000"
definition CO_FUTURE_GENERATOR_STOP :: cint where "CO_FUTURE_GENERATOR_STOP = 0x80000"
definition CO_FUTURE_ANNOTATIONS :: cint where "CO_FUTURE_ANNOTATIONS = 0x100000"

definition PyCF_MASK :: cint where
  "PyCF_MASK = CO_FUTURE_DIVISION OR CO_FUTURE_ABSOLUTE_IMPORT OR CO_FUTURE_WITH_STATEMENT
     OR CO_FUTURE_PRINT_FUNCTION OR CO_FUTURE_UNICODE_LITERALS OR CO_FUTURE_BARRY_AS_BDFL
     OR CO_FUTURE_GENERATOR_STOP OR CO_FUTURE_ANNOTATIONS"

definition PyCF_MASK_OBSOLETE :: cint where "PyCF_MASK_OBSOLETE = CO_NESTED"

definition PyPARSE_DONT_IMPLY_DEDENT :: cint where "PyPARSE_DONT_IMPLY_DEDENT = 0x0002"
definition PyPARSE_IGNORE_COOKIE :: cint where "PyPARSE_IGNORE_COOKIE = 0x0010"
definition PyPARSE_BARRY_AS_BDFL :: cint where "PyPARSE_BARRY_AS_BDFL = 0x0020"

definition Py_single_input :: int where "Py_single_input = 256"
definition Py_file_input :: int where "Py_file_input = 257"
definition Py_eval_input :: int where "Py_eval_input = 258"

definition E_OK :: int where "E_OK = 10"
definition E_EOF :: int where "E_EOF = 11"
definition E_INTR :: int where "E_INTR = 12"
definition E_TOKEN :: int where "E_TOKEN = 13"
definition E_SYNTAX :: int where "E_SYNTAX = 14"
definition E_NOMEM :: int where "E_NOMEM = 15"
definition E_DONE :: int where "E_DONE = 16"
definition E_ERROR :: int where "E_ERROR = 17"
definition E_TABSPACE :: int where "E_TABSPACE = 18"
definition E_OVERFLOW :: int where "E_OVERFLOW = 19"
definition E_TOODEEP :: int where "E_TOODEEP = 20"
definition E_DEDENT :: int where "E_DEDENT = 21"
definition E_DECODE :: int where "E_DECODE = 22"
definition E_EOFS :: int where "E_EOFS = 23"
definition E_EOLS :: int where "E_EOLS = 24"
definition E_LINECONT :: int where "E_LINECONT = 25"
definition E_IDENTIFIER :: int where "E_IDENTIFIER = 26"
definition E_BADSINGLE :: int where "E_BADSINGLE = 27"

definition INDENT :: int where "INDENT = 5"
definition DEDENT :: int where "DEDENT = 6"
definition NOTEQUAL :: int where "NOTEQUAL = 28"

subsection \<open>Objects, exceptions and the error record\<close>

text \<open>
  The objects \<open>compile\<close> receives and returns. \<open>PyUnicode_Check\<close>, \<open>PyBytes_Check\<close>,
  \<open>PyByteArray_Check\<close> and a successful \<open>PyObject_GetBuffer\<close> are the constructor tests;
  \<open>OtherObj\<close> is an object that is none of these and has no buffer.
\<close>

datatype pyobject =
    Unicode unicode
  | Bytes bytes
  | ByteArray bytes
  | BufferObj bytes
  | AstObj nat
  | CodeObj nat
  | OtherObj nat

datatype exc_type =
    SyntaxError | IndentationError | TabError
  | ValueError | TypeError | KeyboardInterrupt | MemoryError | SystemError
  | RuntimeExc nat

text \<open>A message is a C string (\<open>msg\<close>) or a string object (\<open>msg_obj\<close>).\<close>

datatype message = CMsg string | ObjMsg unicode

text \<open>
  A \<open>PyObject *\<close> holding the offending line: \<open>NULL\<close>, \<open>Py_None\<close> or a string object.
\<close>

datatype errtext = TextNULL | TextNone | TextObj unicode

text \<open>
  The value of a raised exception: none (\<open>PyErr_SetNone\<close>, \<open>PyErr_NoMemory\<close>,
  \<open>PyErr_SetObject\<close> with \<open>NULL\<close>), a plain message (\<open>PyErr_SetString\<close>,
  \<open>PyErr_Format\<close>), the tuple \<open>(msg, (filename, lineno, offset, text))\<close> that \<open>err_input\<close>
  builds, or a value made by the runtime.
\<close>

datatype exc_value =
    NoValue
  | PlainMsg string
  | Positioned message string int int errtext
  | RuntimeValue nat

type_synonym pyexc = "exc_type \<times> exc_value"

text \<open>
  \<open>perrdetail\<close> of \<open>parsetok.h\<close>. \<open>err_text\<close> is the buffer \<open>char *text\<close>: \<open>None\<close> is
  the null pointer, \<open>Some b\<close> the bytes of the buffer before its final terminator.
\<close>

record perrdetail =
  err_error :: int
  err_filename :: string
  err_lineno :: int
  err_offset :: int
  err_text :: "bytes option"
  err_token :: int
  err_expected :: int

text \<open>What \<open>PyParser_ParseStringObject\<close> hands back: the node (or \<open>NULL\<close>), the error
  record it filled, the parser flags it wrote through \<open>&iflags\<close>, and the exception it
  left pending, if any.\<close>

record parse_out =
  po_node :: "node option"
  po_err :: perrdetail
  po_iflags :: cint
  po_exc :: "pyexc option"

text \<open>
  The runtime. \<open>Inl\<close> is a failure with the exception the callee raised.
  \<open>env_frame_flags\<close> are the compiler flags of the enclosing execution context, which
  \<open>PyEval_MergeCompilerFlags\<close> merges in. \<open>env_BuildValue_fails n\<close> says that the
  \<open>n\<close>-th \<open>Py_BuildValue\<close> of \<open>err_input\<close> runs out of memory.
\<close>

record env =
  env_frame_flags :: cint
  env_PyAST_Check_error :: "pyexc option"
  env_AsUTF8AndSize :: "unicode \<Rightarrow> pyexc + bytes"
  env_FromStringAndSize_error :: "pyexc option"
  env_ArenaNew :: "pyexc + arena"
  env_ParseStringObject :: "bytes \<Rightarrow> string \<Rightarrow> int \<Rightarrow> cint \<Rightarrow> parse_out"
  env_FromNodeObject :: "node \<Rightarrow> cint \<Rightarrow> string \<Rightarrow> arena \<Rightarrow> pyexc + mod_ty"
  env_obj2mod :: "pyobject \<Rightarrow> arena \<Rightarrow> int \<Rightarrow> pyexc + mod_ty"
  env_Validate :: "mod_ty \<Rightarrow> pyexc option"
  env_mod2obj :: "mod_ty \<Rightarrow> pyexc + pyobject"
  env_CompileObject :: "mod_ty \<Rightarrow> string \<Rightarrow> cint option \<Rightarrow> int \<Rightarrow> arena \<Rightarrow> pyexc + pyobject"
  env_DecodeUTF8 :: "bytes \<Rightarrow> int \<Rightarrow> string \<Rightarrow> unicode option"
  env_Str :: "exc_value \<Rightarrow> unicode option"
  env_BuildValue_fails :: "nat \<Rightarrow> bool"

text \<open>The calls that the properties speak about, in the order they happen.\<close>

datatype event =
    Ev_ArenaNew arena
  | Ev_ArenaFree arena
  | Ev_Parse bytes int cint
  | Ev_NodeFree node
  | Ev_FromNode node cint arena
  | Ev_obj2mod pyobject arena int
  | Ev_Validate mod_ty bool
  | Ev_mod2obj mod_ty
  | Ev_Compile mod_ty "cint option" int arena
  | Ev_ObjectFree bytes

section \<open>\<open>source_as_string\<close>\<close>

text \<open>\<open>strlen\<close> on a buffer: the number of bytes before the first NUL.\<close>

definition strlen :: "bytes \<Rightarrow> nat" where
  "strlen s = length (takeWhile (\<lambda>b. b \<noteq> 0) s)"

text \<open>
  Lines 54 to 60: the check shared by the four kinds of source. \<open>size\<close> is the length of
  the buffer, so the returned string is the whole buffer.
\<close>

definition check_null_bytes :: "bytes \<Rightarrow> cint \<Rightarrow> bytes option \<times> cint \<times> pyexc option" where
  "check_null_bytes str cf =
     (if strlen str \<noteq> length str
      then (None, cf, Some (ValueError, PlainMsg ''source code string cannot contain null bytes''))
      else (Some str, cf, None))"

text \<open>
  Returns the string (\<open>None\<close> for \<open>NULL\<close>), the flags behind \<open>cf\<close> as the function leaves
  them, and the exception it raised. \<open>*cmd_copy\<close> only keeps the copied buffer alive and is
  not modelled.
\<close>

definition source_as_string ::
  "env \<Rightarrow> pyobject \<Rightarrow> string \<Rightarrow> string \<Rightarrow> cint \<Rightarrow> bytes option \<times> cint \<times> pyexc option" where
  "source_as_string env cmd funcname what cf =
     (case cmd of
        Unicode u \<Rightarrow>
          (let cf' = cf OR PyCF_IGNORE_COOKIE in
           case env_AsUTF8AndSize env u of
             Inl e \<Rightarrow> (None, cf', Some e)
           | Inr str \<Rightarrow> check_null_bytes str cf')
      | Bytes str \<Rightarrow> check_null_bytes str cf
      | ByteArray str \<Rightarrow> check_null_bytes str cf
      | BufferObj buf \<Rightarrow>
          (case env_FromStringAndSize_error env of
             Some e \<Rightarrow> (None, cf, Some e)
           | None \<Rightarrow> check_null_bytes buf cf)
      | _ \<Rightarrow>
          (None, cf,
           Some (TypeError, PlainMsg (funcname @ ''() arg 1 must be a '' @ what @ '' object''))))"

section \<open>\<open>PARSER_FLAGS\<close>\<close>

text \<open>The argument is the pointer \<open>flags\<close>: \<open>None\<close> is \<open>NULL\<close>.\<close>

definition PARSER_FLAGS :: "cint option \<Rightarrow> cint" where
  "PARSER_FLAGS flags =
     (case flags of
        None \<Rightarrow> 0
      | Some cf \<Rightarrow>
          (let p0 = 0;
               p1 = (if cf AND PyCF_DONT_IMPLY_DEDENT \<noteq> 0 then p0 OR PyPARSE_DONT_IMPLY_DEDENT else p0);
               p2 = (if cf AND PyCF_IGNORE_COOKIE \<noteq> 0 then p1 OR PyPARSE_IGNORE_COOKIE else p1);
               p3 = (if cf AND CO_FUTURE_BARRY_AS_BDFL \<noteq> 0 then p2 OR PyPARSE_BARRY_AS_BDFL else p2)
           in p3))"

section \<open>\<open>err_input\<close>\<close>

text \<open>The cast \<open>(int)\<close> of a \<open>Py_ssize_t\<close>.\<close>

definition c_int :: "int \<Rightarrow> int" where
  "c_int n = sint (word_of_int n :: 32 word)"

text \<open>The messages that contain the character \<open>'\<close>.\<close>

definition msg_barry :: string where
  "msg_barry = ''with Barry as BDFL, use '' @ [CHR 0x27] @ ''<>'' @ [CHR 0x27]
     @ '' instead of '' @ [CHR 0x27] @ ''!='' @ [CHR 0x27]"

definition msg_mode :: string where
  "msg_mode = ''compile() mode must be '' @ [CHR 0x27] @ ''exec'' @ [CHR 0x27] @ '', ''
     @ [CHR 0x27] @ ''eval'' @ [CHR 0x27] @ '' or '' @ [CHR 0x27] @ ''single'' @ [CHR 0x27]"

text \<open>
  The \<open>switch\<close> of lines 89 to 169. It ends at \<open>cleanup\<close> with the pending exception
  (\<open>Cleanup\<close>), or leaves \<open>errtype\<close>, \<open>msg\<close> and \<open>msg_obj\<close> for the rest of the function
  (\<open>Report\<close>). \<open>cur\<close> is the exception pending at the call: \<open>PyErr_Occurred\<close> reads it and
  \<open>PyErr_Fetch\<close> takes it.
\<close>

datatype switch_out = Cleanup "pyexc option" | Report exc_type string "unicode option"

definition err_switch :: "env \<Rightarrow> perrdetail \<Rightarrow> pyexc option \<Rightarrow> switch_out" where
  "err_switch env err cur =
     (let e = err_error err in
      if e = E_ERROR then Cleanup cur
      else if e = E_SYNTAX then
        (if err_expected err = INDENT then Report IndentationError ''expected an indented block'' None
         else if err_token err = INDENT then Report IndentationError ''unexpected indent'' None
         else if err_token err = DEDENT then Report IndentationError ''unexpected unindent'' None
         else if err_expected err = NOTEQUAL then Report SyntaxError msg_barry None
         else Report SyntaxError ''invalid syntax'' None)
      else if e = E_TOKEN then Report SyntaxError ''invalid token'' None
      else if e = E_EOFS
        then Report SyntaxError ''EOF while scanning triple-quoted string literal'' None
      else if e = E_EOLS then Report SyntaxError ''EOL while scanning string literal'' None
      else if e = E_INTR then
        Cleanup (case cur of None \<Rightarrow> Some (KeyboardInterrupt, NoValue) | Some x \<Rightarrow> Some x)
      else if e = E_NOMEM then Cleanup (Some (MemoryError, NoValue))
      else if e = E_EOF then Report SyntaxError ''unexpected EOF while parsing'' None
      else if e = E_TABSPACE
        then Report TabError ''inconsistent use of tabs and spaces in indentation'' None
      else if e = E_OVERFLOW then Report SyntaxError ''expression too long'' None
      else if e = E_DEDENT
        then Report IndentationError ''unindent does not match any outer indentation level'' None
      else if e = E_TOODEEP then Report IndentationError ''too many levels of indentation'' None
      else if e = E_DECODE then
        Report SyntaxError ''unknown decode error''
          (case cur of
             None \<Rightarrow> None
           | Some (ty, val) \<Rightarrow> (if val \<noteq> NoValue then env_Str env val else None))
      else if e = E_LINECONT
        then Report SyntaxError ''unexpected character after line continuation character'' None
      else if e = E_IDENTIFIER then Report SyntaxError ''invalid character in identifier'' None
      else if e = E_BADSINGLE
        then Report SyntaxError ''multiple statements found while compiling a single statement'' None
      else Report SyntaxError ''unknown parsing error'' None)"

text \<open>Lines 172 to 187: the pair of \<open>offset\<close> and \<open>errtext\<close>.\<close>

definition err_decode :: "env \<Rightarrow> perrdetail \<Rightarrow> int \<times> errtext" where
  "err_decode env err =
     (case err_text err of
        None \<Rightarrow> (err_offset err, TextNone)
      | Some t \<Rightarrow>
          (case env_DecodeUTF8 env t (err_offset err) ''replace'' of
             None \<Rightarrow> (err_offset err, TextNULL)
           | Some u \<Rightarrow>
               (let len = int (strlen t);
                    offset = c_int (int (length u))
                in if len \<noteq> err_offset err
                   then (offset,
                         case env_DecodeUTF8 env t len ''replace'' of
                           None \<Rightarrow> TextNULL
                         | Some u' \<Rightarrow> TextObj u')
                   else (offset, TextObj u))))"

text \<open>Lines 188 to 198: the value \<open>w\<close> given to \<open>PyErr_SetObject\<close>; \<open>NoValue\<close> is \<open>NULL\<close>.\<close>

definition err_value :: "env \<Rightarrow> perrdetail \<Rightarrow> string \<Rightarrow> unicode option \<Rightarrow> exc_value" where
  "err_value env err msg msg_obj =
     (case err_decode env err of
        (offset, errtext) \<Rightarrow>
          if errtext = TextNULL \<or> env_BuildValue_fails env 0 then NoValue
          else if env_BuildValue_fails env 1 then NoValue
          else Positioned (case msg_obj of Some m \<Rightarrow> ObjMsg m | None \<Rightarrow> CMsg msg)
                 (err_filename err) (err_lineno err) offset errtext)"

text \<open>
  The result of \<open>err_input\<close>: the exception pending when it returns, the record behind
  \<open>err\<close> as it leaves it, and the buffers it gave to \<open>PyObject_FREE\<close>.
\<close>

record err_input_out =
  eo_exc :: "pyexc option"
  eo_err :: perrdetail
  eo_freed :: "bytes list"

definition err_input :: "env \<Rightarrow> perrdetail \<Rightarrow> pyexc option \<Rightarrow> err_input_out" where
  "err_input env err cur =
     (let exc = (case err_switch env err cur of
                   Cleanup x \<Rightarrow> x
                 | Report errtype msg msg_obj \<Rightarrow> Some (errtype, err_value env err msg msg_obj))
      in case err_text err of
           None \<Rightarrow> \<lparr>eo_exc = exc, eo_err = err, eo_freed = []\<rparr>
         | Some t \<Rightarrow> \<lparr>eo_exc = exc, eo_err = err\<lparr>err_text := None\<rparr>, eo_freed = [t]\<rparr>)"

section \<open>The drivers\<close>

text \<open>
  \<open>PyParser_ASTFromStringObject\<close> returns \<open>mod\<close>, the flags behind the pointer \<open>flags\<close>
  as it leaves them, the pending exception and its events. \<open>err_free\<close> only drops the
  reference to the file name.
\<close>

definition PyParser_ASTFromStringObject ::
  "env \<Rightarrow> bytes \<Rightarrow> string \<Rightarrow> int \<Rightarrow> cint option \<Rightarrow> arena
     \<Rightarrow> mod_ty option \<times> cint option \<times> pyexc option \<times> event list" where
  "PyParser_ASTFromStringObject env s filename start flags arena =
     (let iflags = PARSER_FLAGS flags;
          po = env_ParseStringObject env s filename start iflags
      in case po_node po of
           Some n \<Rightarrow>
             (let cf = (case flags of None \<Rightarrow> 0 | Some c \<Rightarrow> c) OR (po_iflags po AND PyCF_MASK);
                  flags' = map_option (\<lambda>_. cf) flags;
                  evs = [Ev_Parse s start iflags, Ev_FromNode n cf arena, Ev_NodeFree n]
              in case env_FromNodeObject env n cf filename arena of
                   Inl e \<Rightarrow> (None, flags', Some e, evs)
                 | Inr m \<Rightarrow> (Some m, flags', po_exc po, evs))
         | None \<Rightarrow>
             (let r = err_input env (po_err po) (po_exc po)
              in (None, flags, eo_exc r, Ev_Parse s start iflags # map Ev_ObjectFree (eo_freed r))))"

text \<open>What a driver returns: the object (\<open>None\<close> for \<open>NULL\<close>), the pending exception and
  the events of the call.\<close>

record outcome =
  out_result :: "pyobject option"
  out_exc :: "pyexc option"
  out_trace :: "event list"

definition Py_CompileStringObject ::
  "env \<Rightarrow> bytes \<Rightarrow> string \<Rightarrow> int \<Rightarrow> cint option \<Rightarrow> int \<Rightarrow> outcome" where
  "Py_CompileStringObject env str filename start flags optimize =
     (case env_ArenaNew env of
        Inl e \<Rightarrow> \<lparr>out_result = None, out_exc = Some e, out_trace = []\<rparr>
      | Inr arena \<Rightarrow>
          (case PyParser_ASTFromStringObject env str filename start flags arena of
             (None, flags', exc, evs) \<Rightarrow>
               \<lparr>out_result = None, out_exc = exc,
                out_trace = Ev_ArenaNew arena # evs @ [Ev_ArenaFree arena]\<rparr>
           | (Some m, flags', exc, evs) \<Rightarrow>
               if (case flags' of None \<Rightarrow> False | Some cf \<Rightarrow> cf AND PyCF_ONLY_AST \<noteq> 0)
               then
                 (let tr = Ev_ArenaNew arena # evs @ [Ev_mod2obj m, Ev_ArenaFree arena]
                  in case env_mod2obj env m of
                       Inl e \<Rightarrow> \<lparr>out_result = None, out_exc = Some e, out_trace = tr\<rparr>
                     | Inr obj \<Rightarrow> \<lparr>out_result = Some obj, out_exc = exc, out_trace = tr\<rparr>)
               else
                 (let tr = Ev_ArenaNew arena # evs
                             @ [Ev_Compile m flags' optimize arena, Ev_ArenaFree arena]
                  in case env_CompileObject env m filename flags' optimize arena of
                       Inl e \<Rightarrow> \<lparr>out_result = None, out_exc = Some e, out_trace = tr\<rparr>
                     | Inr co \<Rightarrow> \<lparr>out_result = Some co, out_exc = exc, out_trace = tr\<rparr>)))"

text \<open>
  \<open>PyAST_Check\<close> of the runtime: \<open>-1\<close> when it fails, else whether the object is an AST.
\<close>

definition PyAST_Check :: "env \<Rightarrow> pyobject \<Rightarrow> int" where
  "PyAST_Check env obj =
     (case env_PyAST_Check_error env of
        Some e \<Rightarrow> - 1
      | None \<Rightarrow> (case obj of AstObj a \<Rightarrow> 1 | _ \<Rightarrow> 0))"

text \<open>
  Modelled from the spec: \<open>PyEval_MergeCompilerFlags\<close> is a function of the runtime, not of
  this file; the spec says that the ambient compiler flags from the enclosing execution
  context are merged in before parsing.
\<close>

definition PyEval_MergeCompilerFlags :: "env \<Rightarrow> cint \<Rightarrow> cint" where
  "PyEval_MergeCompilerFlags env cf = cf OR env_frame_flags env"

text \<open>Lines 308 to 318: \<open>None\<close> is the jump to \<open>error\<close>.\<close>

definition compile_mode_of :: "string \<Rightarrow> nat option" where
  "compile_mode_of mode =
     (if mode = ''exec'' then Some 0
      else if mode = ''eval'' then Some 1
      else if mode = ''single'' then Some 2
      else None)"

definition start :: "int list" where
  "start = [Py_file_input, Py_eval_input, Py_single_input]"

definition raise :: "pyexc option \<Rightarrow> outcome" where
  "raise exc = \<lparr>out_result = None, out_exc = exc, out_trace = []\<rparr>"

text \<open>Lines 323 to 349: the source is an AST object.\<close>

definition compile_ast ::
  "env \<Rightarrow> pyobject \<Rightarrow> string \<Rightarrow> cint \<Rightarrow> cint \<Rightarrow> nat \<Rightarrow> int \<Rightarrow> outcome" where
  "compile_ast env source filename flags cf compile_mode optimize =
     (if flags AND PyCF_ONLY_AST \<noteq> 0
      then \<lparr>out_result = Some source, out_exc = None, out_trace = []\<rparr>
      else
        (case env_ArenaNew env of
           Inl e \<Rightarrow> raise (Some e)
         | Inr arena \<Rightarrow>
             (let cm = int compile_mode;
                  t0 = [Ev_ArenaNew arena, Ev_obj2mod source arena cm]
              in case env_obj2mod env source arena cm of
                   Inl e \<Rightarrow>
                     \<lparr>out_result = None, out_exc = Some e, out_trace = t0 @ [Ev_ArenaFree arena]\<rparr>
                 | Inr m \<Rightarrow>
                     (case env_Validate env m of
                        Some e \<Rightarrow>
                          \<lparr>out_result = None, out_exc = Some e,
                           out_trace = t0 @ [Ev_Validate m False, Ev_ArenaFree arena]\<rparr>
                      | None \<Rightarrow>
                          (let tr = t0 @ [Ev_Validate m True,
                                          Ev_Compile m (Some cf) optimize arena, Ev_ArenaFree arena]
                           in case env_CompileObject env m filename (Some cf) optimize arena of
                                Inl e \<Rightarrow> \<lparr>out_result = None, out_exc = Some e, out_trace = tr\<rparr>
                              | Inr co \<Rightarrow>
                                  \<lparr>out_result = Some co, out_exc = None, out_trace = tr\<rparr>)))))"

definition ast37_compile_impl ::
  "env \<Rightarrow> pyobject \<Rightarrow> string \<Rightarrow> string \<Rightarrow> cint \<Rightarrow> int \<Rightarrow> int \<Rightarrow> outcome" where
  "ast37_compile_impl env source filename mode flags dont_inherit optimize =
     (let cf0 = flags OR PyCF_SOURCE_IS_UTF8 in
      if flags AND NOT (PyCF_MASK OR PyCF_MASK_OBSOLETE OR PyCF_DONT_IMPLY_DEDENT OR PyCF_ONLY_AST) \<noteq> 0
      then raise (Some (ValueError, PlainMsg ''compile(): unrecognised flags''))
      else if optimize < - 1 \<or> optimize > 2
      then raise (Some (ValueError, PlainMsg ''compile(): invalid optimize value''))
      else
        (let cf = (if dont_inherit = 0 then PyEval_MergeCompilerFlags env cf0 else cf0) in
         case compile_mode_of mode of
           None \<Rightarrow> raise (Some (ValueError, PlainMsg msg_mode))
         | Some compile_mode \<Rightarrow>
             (let is_ast = PyAST_Check env source in
              if is_ast = - 1 then raise (env_PyAST_Check_error env)
              else if is_ast \<noteq> 0
              then compile_ast env source filename flags cf compile_mode optimize
              else
                (case source_as_string env source ''compile'' ''string, bytes or AST'' cf of
                   (None, cf', exc) \<Rightarrow> raise exc
                 | (Some str, cf', exc) \<Rightarrow>
                     Py_CompileStringObject env str filename (start ! compile_mode)
                       (Some cf') optimize))))"

section \<open>Properties of traces and results\<close>

fun is_arena_event :: "event \<Rightarrow> bool" where
  "is_arena_event (Ev_ArenaNew a) = True"
| "is_arena_event (Ev_ArenaFree a) = True"
| "is_arena_event _ = False"

fun is_validate :: "event \<Rightarrow> bool" where
  "is_validate (Ev_Validate m ok) = True"
| "is_validate _ = False"

fun is_compile :: "event \<Rightarrow> bool" where
  "is_compile (Ev_Compile m cf opt a) = True"
| "is_compile _ = False"

fun is_parse :: "event \<Rightarrow> bool" where
  "is_parse (Ev_Parse s st fl) = True"
| "is_parse _ = False"

definition arena_events :: "event list \<Rightarrow> event list" where
  "arena_events tr = filter is_arena_event tr"

text \<open>
  Every call of the code generator on \<open>m\<close> comes after a call of the validator that
  accepted \<open>m\<close>; \<open>acc\<close> are the trees accepted so far.
\<close>

fun compile_after_validate :: "mod_ty list \<Rightarrow> event list \<Rightarrow> bool" where
  "compile_after_validate acc [] = True"
| "compile_after_validate acc (Ev_Validate m ok # tr) =
     compile_after_validate (if ok then m # acc else acc) tr"
| "compile_after_validate acc (Ev_Compile m cf opt a # tr) =
     (m \<in> set acc \<and> compile_after_validate acc tr)"
| "compile_after_validate acc (e # tr) = compile_after_validate acc tr"

text \<open>
  The arena events of a trace are none, or one allocation followed by one release of the
  same arena, the allocation being the first event of the trace and the release the last.
\<close>

definition arena_freed_once :: "event list \<Rightarrow> bool" where
  "arena_freed_once tr =
     (case arena_events tr of
        [] \<Rightarrow> True
      | [Ev_ArenaNew a, Ev_ArenaFree b] \<Rightarrow> a = b \<and> hd tr = Ev_ArenaNew a \<and> last tr = Ev_ArenaFree a
      | _ \<Rightarrow> False)"

text \<open>Events that touch neither the arena, nor the validator, the code generator or the
  parser.\<close>

definition silent :: "event \<Rightarrow> bool" where
  "silent e \<longleftrightarrow> \<not> is_arena_event e \<and> \<not> is_validate e \<and> \<not> is_compile e \<and> \<not> is_parse e"

text \<open>The parser flags of every call of the parser in a trace satisfy \<open>P\<close>.\<close>

fun parse_flags_all :: "(cint \<Rightarrow> bool) \<Rightarrow> event list \<Rightarrow> bool" where
  "parse_flags_all P [] = True"
| "parse_flags_all P (Ev_Parse s st fl # tr) = (P fl \<and> parse_flags_all P tr)"
| "parse_flags_all P (e # tr) = parse_flags_all P tr"

text \<open>
  The indent context of a syntax error: \<open>INDENT\<close> was expected, or the token met is
  \<open>INDENT\<close> or \<open>DEDENT\<close>.
\<close>

definition indent_context :: "perrdetail \<Rightarrow> bool" where
  "indent_context err \<longleftrightarrow>
     err_expected err = INDENT \<or> err_token err = INDENT \<or> err_token err = DEDENT"

definition raised_type :: "pyexc option \<Rightarrow> exc_type option" where
  "raised_type x = map_option fst x"



subsection \<open>A sample runtime\<close>

text \<open>
  A runtime in which every callee succeeds, for evaluating the drivers on concrete inputs.
  Its decoder reads one- and two-byte UTF-8 sequences and replaces every other byte by
  U+FFFD; its encoder is for ASCII text.
\<close>

fun sample_utf8 :: "bytes \<Rightarrow> unicode" where
  "sample_utf8 [] = []"
| "sample_utf8 [b] = [if unat b < 128 then unat b else 65533]"
| "sample_utf8 (b # c # bs) =
     (if unat b < 128 then unat b # sample_utf8 (c # bs)
      else if 194 \<le> unat b \<and> unat b < 224 \<and> 128 \<le> unat c \<and> unat c < 192
        then ((unat b - 192) * 64 + (unat c - 128)) # sample_utf8 bs
      else 65533 # sample_utf8 (c # bs))"

definition sample_err :: perrdetail where
  "sample_err =
     \<lparr>err_error = E_SYNTAX, err_filename = ''f.py'', err_lineno = 1, err_offset = 3,
      err_text = Some [0xC3, 0xA9, 0x20, 0x21, 0x3D, 0x20, 0x31], err_token = 1,
      err_expected = NOTEQUAL\<rparr>"

definition sample_env :: env where
  "sample_env =
     \<lparr>env_frame_flags = 0,
      env_PyAST_Check_error = None,
      env_AsUTF8AndSize = (\<lambda>u. Inr (map of_nat u)),
      env_FromStringAndSize_error = None,
      env_ArenaNew = Inr 7,
      env_ParseStringObject =
        (\<lambda>s filename st fl.
           \<lparr>po_node = Some 1, po_err = sample_err\<lparr>err_error := E_OK, err_text := None\<rparr>,
            po_iflags = fl, po_exc = None\<rparr>),
      env_FromNodeObject = (\<lambda>n cf filename a. Inr 2),
      env_obj2mod = (\<lambda>obj a m. Inr 3),
      env_Validate = (\<lambda>m. None),
      env_mod2obj = (\<lambda>m. Inr (AstObj m)),
      env_CompileObject = (\<lambda>m filename cf opt a. Inr (CodeObj m)),
      env_DecodeUTF8 = (\<lambda>s size errors. Some (sample_utf8 (take (nat size) s))),
      env_Str = (\<lambda>v. None),
      env_BuildValue_fails = (\<lambda>n. False)\<rparr>"

text \<open>
  The same runtime with a parser that stops with a syntax error: \<open>sample_err\<close> when it is
  called with \<open>PyPARSE_BARRY_AS_BDFL\<close>, and the same record with no expected token (\<open>-1\<close>)
  when it is not.
\<close>

definition sample_env_syntax_error :: env where
  "sample_env_syntax_error =
     sample_env\<lparr>env_ParseStringObject :=
       (\<lambda>s filename st fl.
          \<lparr>po_node = None,
           po_err = (if fl AND PyPARSE_BARRY_AS_BDFL \<noteq> 0 then sample_err
                     else sample_err\<lparr>err_expected := - 1\<rparr>),
           po_iflags = fl, po_exc = None\<rparr>)\<rparr>"

section \<open>The diagnostic translator\<close>

text \<open>The values of the constants, for unfolding.\<close>

lemmas errcode_defs =
  E_OK_def E_EOF_def E_INTR_def E_TOKEN_def E_SYNTAX_def E_NOMEM_def E_DONE_def E_ERROR_def
  E_TABSPACE_def E_OVERFLOW_def E_TOODEEP_def E_DEDENT_def E_DECODE_def E_EOFS_def E_EOLS_def
  E_LINECONT_def E_IDENTIFIER_def E_BADSINGLE_def

lemmas token_defs = INDENT_def DEDENT_def NOTEQUAL_def

lemmas flag_defs =
  PyCF_SOURCE_IS_UTF8_def PyCF_DONT_IMPLY_DEDENT_def PyCF_ONLY_AST_def PyCF_IGNORE_COOKIE_def
  CO_NESTED_def CO_FUTURE_DIVISION_def CO_FUTURE_ABSOLUTE_IMPORT_def CO_FUTURE_WITH_STATEMENT_def
  CO_FUTURE_PRINT_FUNCTION_def CO_FUTURE_UNICODE_LITERALS_def CO_FUTURE_BARRY_AS_BDFL_def
  CO_FUTURE_GENERATOR_STOP_def CO_FUTURE_ANNOTATIONS_def PyCF_MASK_def PyCF_MASK_OBSOLETE_def
  PyPARSE_DONT_IMPLY_DEDENT_def PyPARSE_IGNORE_COOKIE_def PyPARSE_BARRY_AS_BDFL_def

lemma eo_exc_err_input:
  "eo_exc (err_input env err cur) =
     (case err_switch env err cur of
        Cleanup x \<Rightarrow> x
      | Report errtype msg msg_obj \<Rightarrow> Some (errtype, err_value env err msg msg_obj))"
  by (simp add: err_input_def Let_def split: option.splits)

lemma eo_freed_err_input:
  "eo_freed (err_input env err cur) = (case err_text err of None \<Rightarrow> [] | Some t \<Rightarrow> [t])"
  by (simp add: err_input_def Let_def split: option.splits)

lemma raised_type_Report:
  "err_switch env err cur = Report ty msg mo \<Longrightarrow>
   raised_type (eo_exc (err_input env err cur)) = Some ty"
  by (simp add: eo_exc_err_input raised_type_def)








text \<open>
  C3. The category of the exception \<open>err_input\<close> raises is fixed by the error kind:
  \<open>E_TABSPACE\<close> gives \<open>TabError\<close>; \<open>E_DEDENT\<close>, \<open>E_TOODEEP\<close> and \<open>E_SYNTAX\<close> with indent
  context give \<open>IndentationError\<close>; \<open>E_SYNTAX\<close> without indent context, \<open>E_TOKEN\<close>,
  \<open>E_EOFS\<close>, \<open>E_EOLS\<close>, \<open>E_EOF\<close>, \<open>E_OVERFLOW\<close>, \<open>E_LINECONT\<close>, \<open>E_IDENTIFIER\<close> and
  \<open>E_BADSINGLE\<close> give \<open>SyntaxError\<close>. This holds for every error record, every runtime
  and every exception pending at the call.
\<close>

theorem err_input_category:
  "(err_error err = E_TABSPACE \<longrightarrow>
      raised_type (eo_exc (err_input env err cur)) = Some TabError) \<and>
   (err_error err = E_DEDENT \<or> err_error err = E_TOODEEP \<or>
      (err_error err = E_SYNTAX \<and> indent_context err) \<longrightarrow>
      raised_type (eo_exc (err_input env err cur)) = Some IndentationError) \<and>
   ((err_error err = E_SYNTAX \<and> \<not> indent_context err) \<or>
      err_error err \<in> {E_TOKEN, E_EOFS, E_EOLS, E_EOF, E_OVERFLOW, E_LINECONT,
                         E_IDENTIFIER, E_BADSINGLE} \<longrightarrow>
      raised_type (eo_exc (err_input env err cur)) = Some SyntaxError)"
proof (intro conjI impI)
  assume "err_error err = E_TABSPACE"
  then have "err_switch env err cur =
      Report TabError ''inconsistent use of tabs and spaces in indentation'' None"
    by (simp add: err_switch_def errcode_defs)
  then show "raised_type (eo_exc (err_input env err cur)) = Some TabError"
    by (rule raised_type_Report)
next
  assume "err_error err = E_DEDENT \<or> err_error err = E_TOODEEP \<or>
      (err_error err = E_SYNTAX \<and> indent_context err)"
  then have "\<exists>msg. err_switch env err cur = Report IndentationError msg None"
    by (auto simp add: err_switch_def errcode_defs indent_context_def)
  then show "raised_type (eo_exc (err_input env err cur)) = Some IndentationError"
    by (auto dest: raised_type_Report)
next
  assume "(err_error err = E_SYNTAX \<and> \<not> indent_context err) \<or>
      err_error err \<in> {E_TOKEN, E_EOFS, E_EOLS, E_EOF, E_OVERFLOW, E_LINECONT,
                         E_IDENTIFIER, E_BADSINGLE}"
  then have "\<exists>msg. err_switch env err cur = Report SyntaxError msg None"
    by (auto simp add: err_switch_def errcode_defs indent_context_def)
  then show "raised_type (eo_exc (err_input env err cur)) = Some SyntaxError"
    by (auto dest: raised_type_Report)
qed

text \<open>The three categories at concrete error records.\<close>

theorem err_input_category_witness:
  "err_error (sample_err\<lparr>err_error := E_TABSPACE\<rparr>) = E_TABSPACE \<and>
   raised_type (eo_exc (err_input sample_env (sample_err\<lparr>err_error := E_TABSPACE\<rparr>) None))
     = Some TabError \<and>
   err_error (sample_err\<lparr>err_token := DEDENT\<rparr>) = E_SYNTAX \<and>
   indent_context (sample_err\<lparr>err_token := DEDENT\<rparr>) \<and>
   raised_type (eo_exc (err_input sample_env (sample_err\<lparr>err_token := DEDENT\<rparr>) None))
     = Some IndentationError \<and>
   err_error sample_err = E_SYNTAX \<and> \<not> indent_context sample_err \<and>
   raised_type (eo_exc (err_input sample_env sample_err None)) = Some SyntaxError"
  using err_input_category [of "sample_err\<lparr>err_error := E_TABSPACE\<rparr>" sample_env None]
    err_input_category [of "sample_err\<lparr>err_token := DEDENT\<rparr>" sample_env None]
    err_input_category [of sample_err sample_env None]
  by (simp add: sample_err_def indent_context_def errcode_defs token_defs)

text \<open>
  C10. When \<open>err_input\<close> returns, the text pointer of the error record is null, and the
  buffer it pointed to, if there was one, has been given to \<open>PyObject_FREE\<close>, once. This
  holds for every error kind, the kinds \<open>E_ERROR\<close>, \<open>E_INTR\<close> and \<open>E_NOMEM\<close> that jump to
  \<open>cleanup\<close> included.
\<close>

theorem err_input_frees_text:
  "err_text (eo_err (err_input env err cur)) = None \<and>
   eo_freed (err_input env err cur) = (case err_text err of None \<Rightarrow> [] | Some t \<Rightarrow> [t])"
  by (simp add: err_input_def Let_def split: option.splits)





section \<open>The drivers: shape of the traces\<close>

lemma bit_kept: "x AND c \<noteq> 0 \<Longrightarrow> (x OR y) AND c \<noteq> (0::cint)"
  by (simp add: bit.conj_disj_distrib2 or_eq_0_iff)

lemma ex_or_self: "\<exists>k. x = x OR (k::cint)"
  by (rule exI [of _ 0]) simp

lemma PyParser_events:
  assumes "PyParser_ASTFromStringObject env s fn st flags a = (r, fl', exc, evs)"
  shows "\<exists>rest. evs = Ev_Parse s st (PARSER_FLAGS flags) # rest \<and> list_all silent rest"
  using assms
  by (auto simp add: PyParser_ASTFromStringObject_def Let_def eo_freed_err_input silent_def
      split: option.splits sum.splits)

lemma PyParser_flags:
  assumes "PyParser_ASTFromStringObject env s fn st (Some cf) a = (r, fl', exc, evs)"
  shows "\<exists>k. fl' = Some (cf OR k)"
proof (cases "po_node (env_ParseStringObject env s fn st (PARSER_FLAGS (Some cf)))")
  case None
  with assms have "fl' = Some cf"
    by (auto simp add: PyParser_ASTFromStringObject_def Let_def)
  then have "fl' = Some (cf OR 0)" by simp
  then show ?thesis by blast
next
  case (Some n)
  with assms show ?thesis
    by (auto simp add: PyParser_ASTFromStringObject_def Let_def split: sum.splits)
qed

lemma Py_CompileStringObject_shape:
  fixes env str fn st flags opt
  defines "R \<equiv> Py_CompileStringObject env str fn st flags opt"
  shows "(out_trace R = [] \<and> out_result R = None) \<or>
         (\<exists>a mid tail. env_ArenaNew env = Inr a \<and>
            out_trace R = Ev_ArenaNew a # Ev_Parse str st (PARSER_FLAGS flags) # mid @ tail @ [Ev_ArenaFree a] \<and>
            list_all silent mid \<and>
            ((tail = [] \<and> out_result R = None) \<or>
             (\<exists>m. tail = [Ev_mod2obj m] \<and> (\<forall>obj. out_result R = Some obj \<longrightarrow> env_mod2obj env m = Inr obj)) \<or>
             (\<exists>m fl'. tail = [Ev_Compile m fl' opt a] \<and> (\<forall>cf. flags = Some cf \<longrightarrow> cf AND PyCF_ONLY_AST = 0))))"
proof (cases "env_ArenaNew env")
  case (Inl e)
  then show ?thesis by (simp add: R_def Py_CompileStringObject_def)
next
  case (Inr a)
  obtain r fl' exc evs where P: "PyParser_ASTFromStringObject env str fn st flags a = (r, fl', exc, evs)"
    by (metis prod_cases4)
  from PyParser_events [OF P] obtain mid where
    evs: "evs = Ev_Parse str st (PARSER_FLAGS flags) # mid" and mid: "list_all silent mid"
    by blast
  show ?thesis
  proof (cases r)
    case None
    with Inr P evs mid have
      "out_trace R = Ev_ArenaNew a # Ev_Parse str st (PARSER_FLAGS flags) # mid @ [] @ [Ev_ArenaFree a]"
      "out_result R = None"
      by (simp_all add: R_def Py_CompileStringObject_def)
    with Inr mid show ?thesis by blast
  next
    case (Some m)
    show ?thesis
    proof (cases "case fl' of None \<Rightarrow> False | Some cf \<Rightarrow> cf AND PyCF_ONLY_AST \<noteq> 0")
      case True
      with Some Inr P evs have
        "out_trace R = Ev_ArenaNew a # Ev_Parse str st (PARSER_FLAGS flags) # mid @ [Ev_mod2obj m] @ [Ev_ArenaFree a]"
        "\<forall>obj. out_result R = Some obj \<longrightarrow> env_mod2obj env m = Inr obj"
        by (auto simp add: R_def Py_CompileStringObject_def Let_def split: sum.splits)
      with Inr mid show ?thesis by blast
    next
      case False
      have no: "\<forall>cf. flags = Some cf \<longrightarrow> cf AND PyCF_ONLY_AST = 0"
      proof (intro allI impI)
        fix cf assume f: "flags = Some cf"
        with P obtain k where "fl' = Some (cf OR k)"
          using PyParser_flags by blast
        with False show "cf AND PyCF_ONLY_AST = 0"
          using bit_kept [of cf PyCF_ONLY_AST k] by auto
      qed
      from False Some Inr P evs have
        "out_trace R = Ev_ArenaNew a # Ev_Parse str st (PARSER_FLAGS flags) # mid @ [Ev_Compile m fl' opt a] @ [Ev_ArenaFree a]"
        by (auto simp add: R_def Py_CompileStringObject_def Let_def split: sum.splits)
      with Inr mid no show ?thesis by blast
    qed
  qed
qed

lemma strlen_eq_length: "strlen s = length s \<longleftrightarrow> 0 \<notin> set s"
  unfolding strlen_def by (induction s) (auto simp add: le_Suc_eq dest: length_takeWhile_le [THEN le_antisym])

lemma check_null_bytes_NUL:
  "0 \<in> set s \<Longrightarrow> check_null_bytes s cf =
     (None, cf, Some (ValueError, PlainMsg ''source code string cannot contain null bytes''))"
  by (simp add: check_null_bytes_def strlen_eq_length)

lemma source_as_string_Some:
  assumes "source_as_string env src f w cf = (Some str, cf', exc)"
  shows "0 \<notin> set str \<and> (\<exists>k. cf' = cf OR k) \<and> (\<forall>u. src = Unicode u \<longrightarrow> cf' = cf OR PyCF_IGNORE_COOKIE)"
  using assms
  by (cases src)
    (auto simp add: source_as_string_def check_null_bytes_def strlen_eq_length Let_def ex_or_self
      split: sum.splits option.splits if_splits)

lemma source_as_string_NUL:
  assumes "source = Unicode u \<and> env_AsUTF8AndSize env u = Inr s \<or> source = Bytes s \<or>
           source = ByteArray s \<or> source = BufferObj s \<and> env_FromStringAndSize_error env = None"
    and "0 \<in> set s"
  shows "\<exists>cf'. source_as_string env source f w cf =
           (None, cf', Some (ValueError, PlainMsg ''source code string cannot contain null bytes''))"
  using assms by (auto simp add: source_as_string_def Let_def check_null_bytes_NUL)

lemma PyAST_Check_simps:
  "env_PyAST_Check_error env = Some e \<Longrightarrow> PyAST_Check env obj = - 1"
  "env_PyAST_Check_error env = None \<Longrightarrow> PyAST_Check env (AstObj a) = 1"
  "env_PyAST_Check_error env = None \<Longrightarrow> (\<forall>a. obj \<noteq> AstObj a) \<Longrightarrow> PyAST_Check env obj = 0"
  by (auto simp add: PyAST_Check_def split: pyobject.splits)

lemma ast37_compile_impl_cases:
  fixes env source filename mode flags dont_inherit optimize
  defines "R \<equiv> ast37_compile_impl env source filename mode flags dont_inherit optimize"
  shows "(\<exists>exc. R = raise exc) \<or>
         (\<exists>a cf cm. source = AstObj a \<and> R = compile_ast env source filename flags cf cm optimize) \<or>
         (\<exists>str cf cf' exc cm k. (\<forall>a. source \<noteq> AstObj a) \<and> cf = flags OR k \<and>
            source_as_string env source ''compile'' ''string, bytes or AST'' cf = (Some str, cf', exc) \<and>
            R = Py_CompileStringObject env str filename (start ! cm) (Some cf') optimize)"
    (is "?A \<or> ?B \<or> ?C")
proof -
  define bad where
    "bad = (flags AND NOT (PyCF_MASK OR PyCF_MASK_OBSOLETE OR PyCF_DONT_IMPLY_DEDENT OR PyCF_ONLY_AST) \<noteq> 0
            \<or> optimize < - 1 \<or> optimize > 2)"
  define cf where
    "cf = (if dont_inherit = 0 then PyEval_MergeCompilerFlags env (flags OR PyCF_SOURCE_IS_UTF8)
           else flags OR PyCF_SOURCE_IS_UTF8)"
  have cfk: "\<exists>k. cf = flags OR k"
    unfolding cf_def PyEval_MergeCompilerFlags_def
    by (metis or.assoc)
  show ?thesis
  proof (cases bad)
    case True
    then have ?A
      unfolding bad_def R_def ast37_compile_impl_def Let_def by auto
    then show ?thesis by (rule disjI1)
  next
    case False
    then have R1: "R = (case compile_mode_of mode of
           None \<Rightarrow> raise (Some (ValueError, PlainMsg msg_mode))
         | Some compile_mode \<Rightarrow>
             (let is_ast = PyAST_Check env source in
              if is_ast = - 1 then raise (env_PyAST_Check_error env)
              else if is_ast \<noteq> 0
              then compile_ast env source filename flags cf compile_mode optimize
              else
                (case source_as_string env source ''compile'' ''string, bytes or AST'' cf of
                   (None, cf', exc) \<Rightarrow> raise exc
                 | (Some str, cf', exc) \<Rightarrow>
                     Py_CompileStringObject env str filename (start ! compile_mode)
                       (Some cf') optimize)))"
      unfolding bad_def R_def ast37_compile_impl_def Let_def cf_def by simp
    show ?thesis
    proof (cases "compile_mode_of mode")
      case None
      with R1 have ?A by auto
      then show ?thesis by (rule disjI1)
    next
      case (Some cm)
      show ?thesis
      proof (cases "env_PyAST_Check_error env")
        case (Some e)
        with R1 \<open>compile_mode_of mode = Some cm\<close> have "R = raise (Some e)"
          by (simp add: PyAST_Check_simps)
        then have ?A by (rule exI)
        then show ?thesis by (rule disjI1)
      next
        case None
        show ?thesis
        proof (cases "\<exists>a. source = AstObj a")
          case True
          with R1 None \<open>compile_mode_of mode = Some cm\<close>
          have "R = compile_ast env source filename flags cf cm optimize"
            by (auto simp add: PyAST_Check_simps)
          with True have ?B by auto
          then show ?thesis by simp
        next
          case False
          then have nast: "\<forall>a. source \<noteq> AstObj a" by blast
          obtain r cf' exc where
            sas: "source_as_string env source ''compile'' ''string, bytes or AST'' cf = (r, cf', exc)"
            by (metis prod_cases3)
          show ?thesis
          proof (cases r)
            case None
            with R1 \<open>env_PyAST_Check_error env = None\<close> \<open>compile_mode_of mode = Some cm\<close> nast sas
            have "R = raise exc"
              by (simp add: PyAST_Check_simps)
            then have ?A by (rule exI)
            then show ?thesis by (rule disjI1)
          next
            case (Some str)
            with R1 \<open>env_PyAST_Check_error env = None\<close> \<open>compile_mode_of mode = Some cm\<close> nast sas
            have "R = Py_CompileStringObject env str filename (start ! cm) (Some cf') optimize"
              by (simp add: PyAST_Check_simps)
            with nast cfk sas Some have ?C by auto
            then show ?thesis by simp
          qed
        qed
      qed
    qed
  qed
qed

lemma raise_simps [simp]:
  "out_trace (raise x) = []" "out_result (raise x) = None" "out_exc (raise x) = x"
  by (simp_all add: raise_def)

lemma silent_filter: "list_all silent mid \<Longrightarrow> filter is_arena_event mid = []"
  by (induction mid) (auto simp add: silent_def)

lemma silent_no_validate: "list_all silent mid \<Longrightarrow> \<not> list_ex is_validate mid"
  by (induction mid) (auto simp add: silent_def)

lemma silent_no_compile: "list_all silent mid \<Longrightarrow> \<not> list_ex is_compile mid"
  by (induction mid) (auto simp add: silent_def)

lemma silent_parse_flags:
  "list_all silent mid \<Longrightarrow> parse_flags_all P (mid @ rest) = parse_flags_all P rest"
proof (induction mid)
  case Nil
  then show ?case by simp
next
  case (Cons e mid)
  then show ?case by (cases e) (auto simp add: silent_def)
qed

lemma silent_compile_after_validate:
  "list_all silent mid \<Longrightarrow> compile_after_validate acc (mid @ rest) = compile_after_validate acc rest"
proof (induction mid)
  case Nil
  then show ?case by simp
next
  case (Cons e mid)
  then show ?case by (cases e) (auto simp add: silent_def)
qed

lemma Py_CompileStringObject_arena:
  "arena_freed_once (out_trace (Py_CompileStringObject env str fn st flags opt))"
  using Py_CompileStringObject_shape [of env str fn st flags opt]
  by (auto simp add: arena_freed_once_def arena_events_def silent_filter)

lemma compile_ast_arena:
  "arena_freed_once (out_trace (compile_ast env source fn flags cf cm opt))"
  by (simp add: compile_ast_def arena_freed_once_def arena_events_def Let_def
      split: sum.splits option.splits)

lemma PARSER_FLAGS_cookie:
  "PARSER_FLAGS (Some (cf OR PyCF_IGNORE_COOKIE)) AND PyPARSE_IGNORE_COOKIE \<noteq> 0"
  by (simp add: PARSER_FLAGS_def Let_def PyPARSE_DONT_IMPLY_DEDENT_def
      PyPARSE_IGNORE_COOKIE_def PyPARSE_BARRY_AS_BDFL_def PyCF_IGNORE_COOKIE_def
      bit.conj_disj_distrib2 or_eq_0_iff)

lemma Py_CompileStringObject_parse_flags:
  "P (PARSER_FLAGS flags) \<Longrightarrow>
   parse_flags_all P (out_trace (Py_CompileStringObject env str fn st flags opt))"
  using Py_CompileStringObject_shape [of env str fn st flags opt]
  by (auto simp add: silent_parse_flags)

lemma compile_ast_parse_flags:
  "parse_flags_all P (out_trace (compile_ast env source fn flags cf cm opt))"
  by (simp add: compile_ast_def Let_def split: sum.splits option.splits)

lemma compile_ast_validated:
  "compile_after_validate [] (out_trace (compile_ast env source fn flags cf cm opt))"
  by (simp add: compile_ast_def Let_def split: sum.splits option.splits)

lemma Py_CompileStringObject_no_validate:
  "\<not> list_ex is_validate (out_trace (Py_CompileStringObject env str fn st flags opt))"
  using Py_CompileStringObject_shape [of env str fn st flags opt]
  by (auto simp add: silent_no_validate)

lemma compile_ast_only_ast:
  "flags AND PyCF_ONLY_AST \<noteq> 0 \<Longrightarrow>
   compile_ast env source fn flags cf cm opt
     = \<lparr>out_result = Some source, out_exc = None, out_trace = []\<rparr>"
  by (simp add: compile_ast_def)

lemma Py_CompileStringObject_only_ast:
  assumes "cf AND PyCF_ONLY_AST \<noteq> 0"
  shows "\<not> list_ex is_validate (out_trace (Py_CompileStringObject env str fn st (Some cf) opt)) \<and>
         \<not> list_ex is_compile (out_trace (Py_CompileStringObject env str fn st (Some cf) opt)) \<and>
         (out_result (Py_CompileStringObject env str fn st (Some cf) opt) = Some obj \<longrightarrow>
            (\<exists>m. env_mod2obj env m = Inr obj \<and>
                 Ev_mod2obj m \<in> set (out_trace (Py_CompileStringObject env str fn st (Some cf) opt))))"
  using Py_CompileStringObject_shape [of env str fn st "Some cf" opt] assms
  by (auto simp add: silent_no_validate silent_no_compile)

section \<open>The entry point\<close>

text \<open>
  C8. For every \<open>optimize\<close> outside \<open>-1 .. 2\<close>, whatever the other arguments and the
  runtime, \<open>compile\<close> returns \<open>NULL\<close> with a \<open>ValueError\<close> that carries a plain message
  (no line, no column), and the trace is empty: the parser has not been called, nor has any
  other stage.
\<close>

theorem invalid_optimize_rejected:
  assumes "optimize < - 1 \<or> 2 < optimize"
  shows "\<exists>msg. ast37_compile_impl env source filename mode flags dont_inherit optimize
           = \<lparr>out_result = None, out_exc = Some (ValueError, PlainMsg msg), out_trace = []\<rparr>"
  using assms by (auto simp add: ast37_compile_impl_def Let_def raise_def)

text \<open>
  \<open>optimize = 3\<close> on a well-formed text source.
\<close>

theorem invalid_optimize_rejected_witness:
  "((3::int) < - 1 \<or> 2 < (3::int)) \<and>
   ast37_compile_impl sample_env (Unicode [120, 121]) ''f.py'' ''exec'' 0 0 3
     = \<lparr>out_result = None,
        out_exc = Some (ValueError, PlainMsg ''compile(): invalid optimize value''),
        out_trace = []\<rparr>"
proof -
  have h: "(3::int) < - 1 \<or> 2 < (3::int)" by simp
  have "ast37_compile_impl sample_env (Unicode [120, 121]) ''f.py'' ''exec'' 0 0 3
     = \<lparr>out_result = None,
        out_exc = Some (ValueError, PlainMsg ''compile(): invalid optimize value''),
        out_trace = []\<rparr>"
    by (simp add: ast37_compile_impl_def raise_def flag_defs)
  with invalid_optimize_rejected [OF h, of sample_env "Unicode [120, 121]" "''f.py''" "''exec''" 0 0] h
  show ?thesis by simp
qed

text \<open>
  C7. Let the source be text, bytes, a bytearray or a buffer whose bytes, as the runtime
  hands them over, contain a NUL, and let \<open>PyAST_Check\<close> not fail. Then \<open>compile\<close> returns
  \<open>NULL\<close> with a \<open>ValueError\<close> carrying a plain message, which is none of \<open>SyntaxError\<close>,
  \<open>IndentationError\<close> and \<open>TabError\<close>, and the trace is empty: nothing is tokenized or parsed.
\<close>

theorem null_byte_rejected:
  assumes "source = Unicode u \<and> env_AsUTF8AndSize env u = Inr s \<or> source = Bytes s \<or>
           source = ByteArray s \<or> source = BufferObj s \<and> env_FromStringAndSize_error env = None"
    and "0 \<in> set s"
    and "env_PyAST_Check_error env = None"
  shows "\<exists>ty msg. ast37_compile_impl env source filename mode flags dont_inherit optimize
           = \<lparr>out_result = None, out_exc = Some (ty, PlainMsg msg), out_trace = []\<rparr> \<and>
           ty = ValueError \<and> ty \<notin> {SyntaxError, IndentationError, TabError}"
proof -
  define cf where
    "cf = (if dont_inherit = 0 then PyEval_MergeCompilerFlags env (flags OR PyCF_SOURCE_IS_UTF8)
           else flags OR PyCF_SOURCE_IS_UTF8)"
  from assms(1) have nast: "\<forall>a. source \<noteq> AstObj a" by auto
  have chk: "PyAST_Check env source = 0"
    using assms(3) nast by (simp add: PyAST_Check_simps)
  obtain cf' where sas: "source_as_string env source ''compile'' ''string, bytes or AST'' cf =
      (None, cf', Some (ValueError, PlainMsg ''source code string cannot contain null bytes''))"
    using source_as_string_NUL [OF assms(1,2)] by blast
  show ?thesis
    unfolding ast37_compile_impl_def Let_def cf_def [symmetric]
    using sas chk
    by (simp add: raise_def split: option.splits)
qed

text \<open>
  The text \<open>x\<close>, NUL, \<open>y\<close> and the bytes \<open>x\<close>, NUL.
\<close>

theorem null_byte_rejected_witness:
  "env_AsUTF8AndSize sample_env [120, 0, 121] = Inr [120, 0, 121] \<and>
   (0::byte) \<in> set [120, 0, 121] \<and> env_PyAST_Check_error sample_env = None \<and>
   ast37_compile_impl sample_env (Unicode [120, 0, 121]) ''f.py'' ''exec'' 0 1 (- 1)
     = \<lparr>out_result = None,
        out_exc = Some (ValueError, PlainMsg ''source code string cannot contain null bytes''),
        out_trace = []\<rparr> \<and>
   (\<exists>ty msg. ast37_compile_impl sample_env (Bytes [120, 0]) ''f.py'' ''exec'' 0 1 (- 1)
     = \<lparr>out_result = None, out_exc = Some (ty, PlainMsg msg), out_trace = []\<rparr> \<and>
     ty = ValueError \<and> ty \<notin> {SyntaxError, IndentationError, TabError})"
proof -
  have h1: "Unicode [120, 0, 121] = Unicode [120, 0, 121] \<and>
      env_AsUTF8AndSize sample_env [120, 0, 121] = Inr [120, 0, 121] \<or>
      Unicode [120, 0, 121] = Bytes [120, 0, 121] \<or>
      Unicode [120, 0, 121] = ByteArray [120, 0, 121] \<or>
      Unicode [120, 0, 121] = BufferObj [120, 0, 121] \<and>
      env_FromStringAndSize_error sample_env = None"
    by (simp add: sample_env_def)
  have h2: "(0::byte) \<in> set [120, 0, 121]" "(0::byte) \<in> set [120, 0]" by simp_all
  have h3: "env_PyAST_Check_error sample_env = None" by (simp add: sample_env_def)
  have h4: "Bytes [120, 0] = Unicode [] \<and> env_AsUTF8AndSize sample_env [] = Inr [120, 0] \<or>
      Bytes [120, 0] = Bytes [120, 0] \<or> Bytes [120, 0] = ByteArray [120, 0] \<or>
      Bytes [120, 0] = BufferObj [120, 0] \<and> env_FromStringAndSize_error sample_env = None"
    by simp
  have r: "ast37_compile_impl sample_env (Unicode [120, 0, 121]) ''f.py'' ''exec'' 0 1 (- 1)
     = \<lparr>out_result = None,
        out_exc = Some (ValueError, PlainMsg ''source code string cannot contain null bytes''),
        out_trace = []\<rparr>"
    by code_simp
  from null_byte_rejected [OF h1 h2(1) h3, of "''f.py''" "''exec''" 0 1 "- 1"]
    null_byte_rejected [OF h4 h2(2) h3, of "''f.py''" "''exec''" 0 1 "- 1"] h2 h3 r
  show ?thesis by (simp add: sample_env_def)
qed

text \<open>
  C9. When the source is a text object, \<open>source_as_string\<close> leaves \<open>PyCF_IGNORE_COOKIE\<close>
  set in the compiler flags, whatever they were, and every call of the parser that
  \<open>compile\<close> makes on such a source has \<open>PyPARSE_IGNORE_COOKIE\<close> in its parser flags,
  whatever the flags of the caller and of the enclosing context.
\<close>

theorem text_source_ignores_cookie:
  "fst (snd (source_as_string env (Unicode u) funcname what cf)) AND PyCF_IGNORE_COOKIE \<noteq> 0 \<and>
   parse_flags_all (\<lambda>fl. fl AND PyPARSE_IGNORE_COOKIE \<noteq> 0)
     (out_trace (ast37_compile_impl env (Unicode u) filename mode flags dont_inherit optimize))"
proof
  show "fst (snd (source_as_string env (Unicode u) funcname what cf)) AND PyCF_IGNORE_COOKIE \<noteq> 0"
    by (simp add: source_as_string_def Let_def check_null_bytes_def PyCF_IGNORE_COOKIE_def
        split: sum.splits)
next
  let ?P = "\<lambda>fl. fl AND PyPARSE_IGNORE_COOKIE \<noteq> 0"
  let ?R = "ast37_compile_impl env (Unicode u) filename mode flags dont_inherit optimize"
  from ast37_compile_impl_cases [of env "Unicode u" filename mode flags dont_inherit optimize]
  consider (err) exc where "?R = raise exc"
    | (str) str cf cf' exc cm where
        "source_as_string env (Unicode u) ''compile'' ''string, bytes or AST'' cf = (Some str, cf', exc)"
        "?R = Py_CompileStringObject env str filename (start ! cm) (Some cf') optimize"
    by auto
  then show "parse_flags_all ?P (out_trace ?R)"
  proof cases
    case err
    then show ?thesis by simp
  next
    case str
    from source_as_string_Some [OF str(1)] have "cf' = cf OR PyCF_IGNORE_COOKIE" by simp
    then have "?P (PARSER_FLAGS (Some cf'))" by (simp add: PARSER_FLAGS_cookie)
    then show ?thesis
      unfolding str(2) by (rule Py_CompileStringObject_parse_flags)
  qed
qed

text \<open>The text \<open>xy\<close> compiled with no flag: the parser is called, with parser flags 16.\<close>

theorem text_source_ignores_cookie_witness:
  "out_trace (ast37_compile_impl sample_env (Unicode [120, 121]) ''f.py'' ''exec'' 0 0 (- 1))
     = [Ev_ArenaNew 7, Ev_Parse [120, 121] 257 16, Ev_FromNode 1 2304 7, Ev_NodeFree 1,
        Ev_Compile 2 (Some 2304) (- 1) 7, Ev_ArenaFree 7] \<and>
   PyPARSE_IGNORE_COOKIE = 16 \<and>
   parse_flags_all (\<lambda>fl. fl AND PyPARSE_IGNORE_COOKIE \<noteq> 0)
     (out_trace (ast37_compile_impl sample_env (Unicode [120, 121]) ''f.py'' ''exec'' 0 0 (- 1)))"
proof -
  have "out_trace (ast37_compile_impl sample_env (Unicode [120, 121]) ''f.py'' ''exec'' 0 0 (- 1))
     = [Ev_ArenaNew 7, Ev_Parse [120, 121] 257 16, Ev_FromNode 1 2304 7, Ev_NodeFree 1,
        Ev_Compile 2 (Some 2304) (- 1) 7, Ev_ArenaFree 7]"
    by code_simp
  with text_source_ignores_cookie
    [of sample_env "[120, 121]" "''compile''" "''string''" 0 "''f.py''" "''exec''" 0 0 "- 1"]
  show ?thesis by (simp add: PyPARSE_IGNORE_COOKIE_def)
qed

text \<open>
  C4. In every run of \<open>Py_CompileStringObject\<close> and of \<open>ast37_compile_impl\<close>, whatever the
  arguments and whatever the runtime does (success, parse failure, failure of the AST
  builder or of \<open>PyAST_obj2mod\<close>, rejection by the validator, the \<open>PyCF_ONLY_AST\<close> return,
  failure of the code generator, no memory), either no arena is allocated, or one arena is
  allocated, as the first event, and that arena is freed exactly once, as the last event
  before the return.
\<close>

theorem arena_freed_exactly_once:
  "arena_freed_once (out_trace (Py_CompileStringObject env str filename st fl optimize)) \<and>
   arena_freed_once
     (out_trace (ast37_compile_impl env source filename mode flags dont_inherit optimize))"
proof -
  have "arena_freed_once
     (out_trace (ast37_compile_impl env source filename mode flags dont_inherit optimize))"
    using ast37_compile_impl_cases [of env source filename mode flags dont_inherit optimize]
    by (auto simp add: Py_CompileStringObject_arena compile_ast_arena)
      (simp add: arena_freed_once_def arena_events_def)
  then show ?thesis by (simp add: Py_CompileStringObject_arena)
qed

text \<open>
  The arena on four exit paths: success, a syntax error, the \<open>PyCF_ONLY_AST\<close> return and a
  source that is an AST object.
\<close>

theorem arena_freed_exactly_once_witness:
  "arena_events
     (out_trace (ast37_compile_impl sample_env (Bytes [0x78]) ''f.py'' ''exec'' 0 1 (- 1)))
     = [Ev_ArenaNew 7, Ev_ArenaFree 7] \<and>
   arena_events (out_trace
     (ast37_compile_impl sample_env_syntax_error (Bytes [0x78]) ''f.py'' ''exec'' 0 1 (- 1)))
     = [Ev_ArenaNew 7, Ev_ArenaFree 7] \<and>
   arena_events (out_trace
     (ast37_compile_impl sample_env (Bytes [0x78]) ''f.py'' ''exec'' PyCF_ONLY_AST 1 (- 1)))
     = [Ev_ArenaNew 7, Ev_ArenaFree 7] \<and>
   arena_events
     (out_trace (ast37_compile_impl sample_env (AstObj 5) ''f.py'' ''exec'' 0 1 (- 1)))
     = [Ev_ArenaNew 7, Ev_ArenaFree 7] \<and>
   arena_freed_once
     (out_trace (ast37_compile_impl sample_env (Bytes [0x78]) ''f.py'' ''exec'' 0 1 (- 1)))"
proof -
  have "arena_events
     (out_trace (ast37_compile_impl sample_env (Bytes [0x78]) ''f.py'' ''exec'' 0 1 (- 1)))
     = [Ev_ArenaNew 7, Ev_ArenaFree 7]"
    "arena_events (out_trace
     (ast37_compile_impl sample_env_syntax_error (Bytes [0x78]) ''f.py'' ''exec'' 0 1 (- 1)))
     = [Ev_ArenaNew 7, Ev_ArenaFree 7]"
    "arena_events (out_trace
     (ast37_compile_impl sample_env (Bytes [0x78]) ''f.py'' ''exec'' PyCF_ONLY_AST 1 (- 1)))
     = [Ev_ArenaNew 7, Ev_ArenaFree 7]"
    "arena_events
     (out_trace (ast37_compile_impl sample_env (AstObj 5) ''f.py'' ''exec'' 0 1 (- 1)))
     = [Ev_ArenaNew 7, Ev_ArenaFree 7]"
    by code_simp+
  with arena_freed_exactly_once
    [of sample_env "[]" "''f.py''" 257 None "- 1" "Bytes [0x78]" "''exec''" 0 1]
  show ?thesis by simp
qed

text \<open>
  C1, as the code has it. When the source is an AST object, every call of the code generator
  in the trace comes after a call of the validator that accepted the same tree. When the
  source is anything else, the validator is never called: the tree the AST builder made
  from the parsed text goes to the code generator as it is.
\<close>

theorem validation_only_for_supplied_ast:
  "(source = AstObj a \<longrightarrow>
      compile_after_validate []
        (out_trace (ast37_compile_impl env source filename mode flags dont_inherit optimize))) \<and>
   ((\<forall>a. source \<noteq> AstObj a) \<longrightarrow>
      \<not> list_ex is_validate
        (out_trace (ast37_compile_impl env source filename mode flags dont_inherit optimize)))"
  using ast37_compile_impl_cases [of env source filename mode flags dont_inherit optimize]
  by (auto simp add: compile_ast_validated Py_CompileStringObject_no_validate)

text \<open>
  C1 as stated fails: compiling the bytes \<open>x\<close> reaches the code generator, which returns
  a code object, and the validator has not been called.
\<close>

theorem parsed_source_not_validated:
  "out_result (ast37_compile_impl sample_env (Bytes [0x78]) ''f.py'' ''exec'' 0 1 (- 1))
     = Some (CodeObj 2) \<and>
   out_trace (ast37_compile_impl sample_env (Bytes [0x78]) ''f.py'' ''exec'' 0 1 (- 1))
     = [Ev_ArenaNew 7, Ev_Parse [0x78] 257 0, Ev_FromNode 1 256 7, Ev_NodeFree 1,
        Ev_Compile 2 (Some 256) (- 1) 7, Ev_ArenaFree 7] \<and>
   \<not> compile_after_validate []
     (out_trace (ast37_compile_impl sample_env (Bytes [0x78]) ''f.py'' ''exec'' 0 1 (- 1)))"
  by code_simp

text \<open>
  An AST object goes through the validator before the code generator; bytes do not.
\<close>

theorem validation_only_for_supplied_ast_witness:
  "out_trace (ast37_compile_impl sample_env (AstObj 5) ''f.py'' ''exec'' 0 1 (- 1))
     = [Ev_ArenaNew 7, Ev_obj2mod (AstObj 5) 7 0, Ev_Validate 3 True,
        Ev_Compile 3 (Some 256) (- 1) 7, Ev_ArenaFree 7] \<and>
   compile_after_validate []
     (out_trace (ast37_compile_impl sample_env (AstObj 5) ''f.py'' ''exec'' 0 1 (- 1))) \<and>
   (\<forall>a. Bytes [0x78] \<noteq> AstObj a) \<and>
   \<not> list_ex is_validate
     (out_trace (ast37_compile_impl sample_env (Bytes [0x78]) ''f.py'' ''exec'' 0 1 (- 1)))"
proof -
  have tr: "out_trace (ast37_compile_impl sample_env (AstObj 5) ''f.py'' ''exec'' 0 1 (- 1))
     = [Ev_ArenaNew 7, Ev_obj2mod (AstObj 5) 7 0, Ev_Validate 3 True,
        Ev_Compile 3 (Some 256) (- 1) 7, Ev_ArenaFree 7]"
    by code_simp
  show ?thesis
    using validation_only_for_supplied_ast [of "AstObj 5" 5 sample_env "''f.py''" "''exec''" 0 1 "- 1"]
      validation_only_for_supplied_ast [of "Bytes [0x78]" 0 sample_env "''f.py''" "''exec''" 0 1 "- 1"] tr
    by simp
qed

text \<open>
  C2, as the code has it. With \<open>PyCF_ONLY_AST\<close> in the flags, neither the validator nor the
  code generator is ever called. When the source is an AST object and \<open>compile\<close> returns an
  object, it is the source itself and no stage has run. When the source is anything else
  and \<open>compile\<close> returns an object, it is the object \<open>PyAST_mod2obj\<close> made from the tree
  of the AST builder.
\<close>

theorem ast_only_returns_without_validation:
  assumes "flags AND PyCF_ONLY_AST \<noteq> 0"
  shows "\<not> list_ex is_validate
           (out_trace (ast37_compile_impl env source filename mode flags dont_inherit optimize)) \<and>
         \<not> list_ex is_compile
           (out_trace (ast37_compile_impl env source filename mode flags dont_inherit optimize)) \<and>
         (source = AstObj a \<longrightarrow>
          out_result (ast37_compile_impl env source filename mode flags dont_inherit optimize)
            = Some obj \<longrightarrow>
          obj = source \<and>
          out_trace (ast37_compile_impl env source filename mode flags dont_inherit optimize) = []) \<and>
         ((\<forall>a. source \<noteq> AstObj a) \<longrightarrow>
          out_result (ast37_compile_impl env source filename mode flags dont_inherit optimize)
            = Some obj \<longrightarrow>
          (\<exists>m. env_mod2obj env m = Inr obj \<and>
               Ev_mod2obj m \<in> set (out_trace
                 (ast37_compile_impl env source filename mode flags dont_inherit optimize))))"
proof -
  let ?R = "ast37_compile_impl env source filename mode flags dont_inherit optimize"
  from ast37_compile_impl_cases [of env source filename mode flags dont_inherit optimize]
  consider (err) exc where "?R = raise exc"
    | (ast) a cf cm where "source = AstObj a"
        "?R = compile_ast env source filename flags cf cm optimize"
    | (str) str cf cf' exc cm k where "\<forall>a. source \<noteq> AstObj a" "cf = flags OR k"
        "source_as_string env source ''compile'' ''string, bytes or AST'' cf = (Some str, cf', exc)"
        "?R = Py_CompileStringObject env str filename (start ! cm) (Some cf') optimize"
    by blast
  then show ?thesis
  proof cases
    case err
    then show ?thesis by auto
  next
    case ast
    with assms show ?thesis by (auto simp add: compile_ast_only_ast)
  next
    case str
    from source_as_string_Some [OF str(3)] obtain k' where "cf' = cf OR k'" by blast
    with str(2) assms have "cf' AND PyCF_ONLY_AST \<noteq> 0"
      by (simp add: bit_kept)
    from Py_CompileStringObject_only_ast [OF this, of env str filename "start ! cm" optimize obj]
      str(1)
    show ?thesis unfolding str(4) by blast
  qed
qed

text \<open>
  C2 as stated fails: with \<open>PyCF_ONLY_AST\<close>, an AST object is returned with no stage run,
  and bytes are parsed, lowered and returned as an AST object; in neither run is the
  validator called.
\<close>

theorem ast_only_counterexample:
  "PyCF_ONLY_AST AND PyCF_ONLY_AST \<noteq> 0 \<and>
   ast37_compile_impl sample_env (AstObj 5) ''f.py'' ''exec'' PyCF_ONLY_AST 1 (- 1)
     = \<lparr>out_result = Some (AstObj 5), out_exc = None, out_trace = []\<rparr> \<and>
   ast37_compile_impl sample_env (Bytes [0x78]) ''f.py'' ''exec'' PyCF_ONLY_AST 1 (- 1)
     = \<lparr>out_result = Some (AstObj 2), out_exc = None,
        out_trace = [Ev_ArenaNew 7, Ev_Parse [0x78] 257 0, Ev_FromNode 1 1280 7, Ev_NodeFree 1,
                     Ev_mod2obj 2, Ev_ArenaFree 7]\<rparr> \<and>
   \<not> list_ex is_validate
     (out_trace (ast37_compile_impl sample_env (Bytes [0x78]) ''f.py'' ''exec'' PyCF_ONLY_AST 1 (- 1)))"
  by code_simp

text \<open>
  The bytes \<open>x\<close> compiled with \<open>PyCF_ONLY_AST\<close>.
\<close>

theorem ast_only_returns_without_validation_witness:
  "PyCF_ONLY_AST AND PyCF_ONLY_AST \<noteq> 0 \<and>
   out_result (ast37_compile_impl sample_env (Bytes [0x78]) ''f.py'' ''exec'' PyCF_ONLY_AST 1 (- 1))
     = Some (AstObj 2) \<and>
   \<not> list_ex is_validate
     (out_trace (ast37_compile_impl sample_env (Bytes [0x78]) ''f.py'' ''exec'' PyCF_ONLY_AST 1 (- 1))) \<and>
   \<not> list_ex is_compile
     (out_trace (ast37_compile_impl sample_env (Bytes [0x78]) ''f.py'' ''exec'' PyCF_ONLY_AST 1 (- 1))) \<and>
   (\<exists>m. env_mod2obj sample_env m = Inr (AstObj 2) \<and>
        Ev_mod2obj m \<in> set (out_trace
          (ast37_compile_impl sample_env (Bytes [0x78]) ''f.py'' ''exec'' PyCF_ONLY_AST 1 (- 1))))"
proof -
  have h: "PyCF_ONLY_AST AND PyCF_ONLY_AST \<noteq> 0"
    by (simp add: PyCF_ONLY_AST_def)
  have r: "out_result
      (ast37_compile_impl sample_env (Bytes [0x78]) ''f.py'' ''exec'' PyCF_ONLY_AST 1 (- 1))
     = Some (AstObj 2)"
    by code_simp
  from ast_only_returns_without_validation [OF h, of sample_env "Bytes [0x78]" "''f.py''" "''exec''" 1 "- 1" 0 "AstObj 2"] h r
  show ?thesis by simp
qed

end
